theory Spec2Isabelle
  imports Complex_Main "HOL-Library.Char_ord" "HOL-Library.List_Lexorder"
    "HOL-Library.Product_Lexorder"
begin

section \<open>The tiered cache service of the fact checker\<close>

text \<open>
  A shallow embedding of \<^verbatim>\<open>src/core/services/cache_service.py\<close>. The methods of
  \<^verbatim>\<open>CacheService\<close> become functions over a record of the attributes they read
  (\<^verbatim>\<open>self.stats\<close>, \<^verbatim>\<open>self.memory_cache\<close>, \<^verbatim>\<open>self.cache_dir\<close>,
  \<^verbatim>\<open>self.redis\<close>); an exception is a value of \<open>py_exception\<close> on the left of a sum,
  and every \<^verbatim>\<open>try/except Exception\<close> of the source is a case distinction on that sum.
\<close>

subsection \<open>Python values and string operations\<close>

datatype py_exception =
    ZeroDivisionError
  | IndexError
  | FileNotFoundError
  | NotADirectoryError
  | IsADirectoryError
  | PermissionError
  | UnpicklingError
  | UnicodeDecodeError
  | ConnectionError
  | FileExistsError

text \<open>\<^verbatim>\<open>a / b\<close> on integers: the quotient (kept exact here; Python rounds it to the
  nearest double), or \<^verbatim>\<open>ZeroDivisionError\<close>.\<close>

definition py_truediv :: "int \<Rightarrow> int \<Rightarrow> py_exception + rat" where
  "py_truediv a b = (if b = 0 then Inl ZeroDivisionError else Inr (of_int a / of_int b))"

text \<open>\<^verbatim>\<open>s.startswith(p)\<close>, \<^verbatim>\<open>s.endswith(p)\<close>, \<^verbatim>\<open>s.replace('*', '')\<close>.\<close>

definition startswith :: "string \<Rightarrow> string \<Rightarrow> bool" where
  "startswith s p = (take (length p) s = p)"

definition endswith :: "string \<Rightarrow> string \<Rightarrow> bool" where
  "endswith s p = (length p \<le> length s \<and> drop (length s - length p) s = p)"

definition remove_stars :: "string \<Rightarrow> string" where
  "remove_stars s = filter (\<lambda>c. c \<noteq> CHR ''*'') s"

text \<open>\<^verbatim>\<open>s.split(':', 1)\<close> has two elements when \<^verbatim>\<open>':' in s\<close> (the text before the
  first colon and the text after it) and the single element \<^verbatim>\<open>s\<close> otherwise.\<close>

definition has_colon :: "string \<Rightarrow> bool" where
  "has_colon s = (CHR '':'' \<in> set s)"

definition before_colon :: "string \<Rightarrow> string" where
  "before_colon s = takeWhile (\<lambda>c. c \<noteq> CHR '':'') s"

definition after_colon :: "string \<Rightarrow> string" where
  "after_colon s = drop 1 (dropWhile (\<lambda>c. c \<noteq> CHR '':'') s)"

definition split_colon_1 :: "string \<Rightarrow> py_exception + string" where
  "split_colon_1 s = (if has_colon s then Inr (after_colon s) else Inl IndexError)"

text \<open>\<^verbatim>\<open>os.path.basename\<close> and the root of \<^verbatim>\<open>os.path.splitext\<close> (POSIX): the extension
  starts at the last dot of the name, unless only dots precede it.\<close>

definition basename :: "string \<Rightarrow> string" where
  "basename p = rev (takeWhile (\<lambda>c. c \<noteq> CHR ''/'') (rev p))"

definition splitext_root :: "string \<Rightarrow> string" where
  "splitext_root p =
     (let name = basename p;
          ext = rev (takeWhile (\<lambda>c. c \<noteq> CHR ''.'') (rev name));
          stem = take (length name - length ext - 1) name
      in if CHR ''.'' \<in> set name \<and> list_ex (\<lambda>c. c \<noteq> CHR ''.'') stem
         then take (length p - length ext - 1) p else p)"

text \<open>\<^verbatim>\<open>sorted(list(keys))\<close> for a set of strings: the elements without duplicates in
  ascending order (Python compares strings by code point; characters are bytes here).\<close>

definition sorted_set :: "string list \<Rightarrow> string list" where
  "sorted_set xs = sort (remdups xs)"


text \<open>\<^verbatim>\<open>k.decode()\<close> of a key returned by the remote store.\<close>

datatype pybytes = Utf8 string | NotUtf8

fun decode :: "pybytes \<Rightarrow> py_exception + string" where
  "decode (Utf8 s) = Inr s"
| "decode NotUtf8 = Inl UnicodeDecodeError"

text \<open>A comprehension whose element expression may raise stops at the first exception.\<close>

fun map_raise :: "('a \<Rightarrow> py_exception + 'b) \<Rightarrow> 'a list \<Rightarrow> py_exception + 'b list" where
  "map_raise f [] = Inr []"
| "map_raise f (x # xs) =
     (case f x of
        Inl e \<Rightarrow> Inl e
      | Inr y \<Rightarrow> (case map_raise f xs of Inl e \<Rightarrow> Inl e | Inr ys \<Rightarrow> Inr (y # ys)))"

subsection \<open>The state of the service\<close>

text \<open>The file system below a path: a regular file with its size and what
  \<^verbatim>\<open>pickle.load\<close> reads from it (a dictionary of cache entries, or nothing that
  unpickles), or a directory with its own size and its entries. \<open>'e\<close> is the type of
  the values of \<^verbatim>\<open>memory_cache\<close>.\<close>

datatype 'e blob =
    Pickled "(string \<times> 'e) list"
  | Corrupt

datatype 'e fsnode =
    RegFile nat "'e blob"
  | Directory nat "(string \<times> 'e fsnode) list"

fun getsize :: "'e fsnode \<Rightarrow> nat" where
  "getsize (RegFile n b) = n"
| "getsize (Directory n es) = n"

text \<open>\<^verbatim>\<open>os.listdir(path)\<close> on what is found at the path.\<close>

fun listdir :: "'e fsnode option \<Rightarrow> py_exception + string list" where
  "listdir None = Inl FileNotFoundError"
| "listdir (Some (RegFile n b)) = Inl NotADirectoryError"
| "listdir (Some (Directory n es)) = Inr (map fst es)"

text \<open>The remote client: what \<^verbatim>\<open>ping\<close>, \<^verbatim>\<open>dbsize\<close> and \<^verbatim>\<open>keys(pattern)\<close> answer
  (pattern matching is done by the remote server), and the entries it stores.\<close>

record 'e redis_client =
  ping_reply :: "py_exception + unit"
  dbsize_reply :: "py_exception + int"
  keys_reply :: "string \<Rightarrow> py_exception + pybytes list"
  remote_entries :: "(string \<times> 'e) list"

record cache_stats =
  hits :: int
  misses :: int
  memory_hits :: int
  file_hits :: int
  redis_hits :: int

text \<open>\<open>memory_cache\<close> is the dictionary in insertion order; \<open>cache_dir\<close> is what the
  path \<^verbatim>\<open>self.cache_dir\<close> holds, and \<open>dir_writable\<close> says whether files can be created
  and removed there.\<close>

record 'e cache_service =
  stats :: cache_stats
  memory_cache :: "(string \<times> 'e) list"
  cache_dir :: "'e fsnode option"
  dir_writable :: bool
  redis :: "'e redis_client option"

subsection \<open>Statistics\<close>

text \<open>A value of the statistics dictionary is a number or, where the source stores the
  result of calling an \<^verbatim>\<open>async def\<close> without awaiting it, a coroutine object.\<close>

datatype stat_value = IntValue int | CoroutineObject

record 't stats_report =
  r_total_requests :: int
  r_hits :: int
  r_misses :: int
  r_hit_rate :: rat
  r_memory_hits :: int
  r_file_hits :: int
  r_redis_hits :: int
  r_memory_cache_size :: nat
  r_file_cache_size :: nat
  r_redis_cache_size :: stat_value
  r_last_cleanup :: 't

definition get_file_cache_size :: "'e cache_service \<Rightarrow> nat" where
  "get_file_cache_size s =
     (case cache_dir s of
        Some (Directory n es) \<Rightarrow>
          sum_list (map (\<lambda>(name, node). getsize node)
                        (filter (\<lambda>(name, node). endswith name ''.cache'') es))
      | _ \<Rightarrow> 0)"

text \<open>\<^verbatim>\<open>async def _get_redis_size\<close>: the value the coroutine yields once awaited.\<close>

definition get_redis_size :: "'e cache_service \<Rightarrow> int" where
  "get_redis_size s =
     (case redis s of
        Some r \<Rightarrow> (case dbsize_reply r of Inl e \<Rightarrow> 0 | Inr n \<Rightarrow> n)
      | None \<Rightarrow> 0)"

text \<open>\<^verbatim>\<open>get_stats\<close> is a plain \<^verbatim>\<open>def\<close>: it calls \<^verbatim>\<open>self._get_redis_size()\<close> and stores
  what the call returns, which for an \<^verbatim>\<open>async def\<close> is the coroutine object.
  \<^verbatim>\<open>_get_last_cleanup_time\<close> is not part of the source file and is a parameter.\<close>

definition get_stats :: "('e cache_service \<Rightarrow> 't) \<Rightarrow> 'e cache_service \<Rightarrow> py_exception + 't stats_report" where
  "get_stats get_last_cleanup_time s =
     (let total_requests = hits (stats s) + misses (stats s) in
      case (if total_requests > 0 then py_truediv (hits (stats s)) total_requests else Inr 0) of
        Inl e \<Rightarrow> Inl e
      | Inr hit_rate \<Rightarrow>
          Inr \<lparr> r_total_requests = total_requests,
                r_hits = hits (stats s),
                r_misses = misses (stats s),
                r_hit_rate = hit_rate,
                r_memory_hits = memory_hits (stats s),
                r_file_hits = file_hits (stats s),
                r_redis_hits = redis_hits (stats s),
                r_memory_cache_size = length (memory_cache s),
                r_file_cache_size = get_file_cache_size s,
                r_redis_cache_size = CoroutineObject,
                r_last_cleanup = get_last_cleanup_time s \<rparr>)"

subsection \<open>Health check\<close>






subsection \<open>Key and namespace listings\<close>

text \<open>\<^verbatim>\<open>if namespace:\<close> holds for a string that is neither \<^verbatim>\<open>None\<close> nor empty.\<close>

definition qualified_pattern :: "string \<Rightarrow> string option \<Rightarrow> string" where
  "qualified_pattern pattern namespace =
     (case namespace of
        None \<Rightarrow> pattern
      | Some ns \<Rightarrow> (if ns = [] then pattern else ns @ '':'' @ pattern))"

text \<open>\<^verbatim>\<open>k.split(':', 1)[1] if ':' in k else k\<close>.\<close>

definition raw_key :: "string \<Rightarrow> string" where
  "raw_key k = (if has_colon k then after_colon k else k)"

text \<open>The memory tier keeps the keys that start with the pattern stripped of its stars.\<close>

definition memory_keys :: "'e cache_service \<Rightarrow> string \<Rightarrow> string list" where
  "memory_keys s pattern =
     map raw_key (filter (\<lambda>k. startswith k (remove_stars pattern)) (map fst (memory_cache s)))"

definition redis_raw_key :: "pybytes \<Rightarrow> py_exception + string" where
  "redis_raw_key k = (case decode k of Inl e \<Rightarrow> Inl e | Inr d \<Rightarrow> Inr (raw_key d))"

definition redis_keys :: "'e cache_service \<Rightarrow> string \<Rightarrow> py_exception + string list" where
  "redis_keys s pattern =
     (case redis s of
        None \<Rightarrow> Inr []
      | Some r \<Rightarrow>
          (case keys_reply r pattern of
             Inl e \<Rightarrow> Inl e
           | Inr ks \<Rightarrow> map_raise redis_raw_key ks))"

text \<open>For a path \<^verbatim>\<open>f\<close> found by \<^verbatim>\<open>glob\<close>: the condition looks at the base name, the
  split at its root without the extension.\<close>

definition file_raw_key :: "string \<Rightarrow> py_exception + string" where
  "file_raw_key f =
     (if has_colon (basename f) then split_colon_1 (splitext_root (basename f))
      else Inr (splitext_root (basename f)))"

text \<open>\<open>glob\<close> stands for \<^verbatim>\<open>glob.glob(os.path.join(self.cache_dir, p))\<close> of the standard
  library on the file system of the node: the paths that match.\<close>

definition get_keys_body ::
  "(string \<Rightarrow> string list) \<Rightarrow> 'e cache_service \<Rightarrow> string \<Rightarrow> string option \<Rightarrow> py_exception + string list" where
  "get_keys_body glob s pattern0 namespace =
     (let pattern = qualified_pattern pattern0 namespace;
          keys1 = memory_keys s pattern
      in case redis_keys s pattern of
           Inl e \<Rightarrow> Inl e
         | Inr keys2 \<Rightarrow>
             (case map_raise file_raw_key (glob (pattern @ ''.cache'')) of
                Inl e \<Rightarrow> Inl e
              | Inr keys3 \<Rightarrow> Inr (sorted_set (keys1 @ keys2 @ keys3))))"

text \<open>The whole body stands in \<^verbatim>\<open>try: ... except Exception: return []\<close>.\<close>

definition get_keys ::
  "(string \<Rightarrow> string list) \<Rightarrow> 'e cache_service \<Rightarrow> string \<Rightarrow> string option \<Rightarrow> py_exception + string list" where
  "get_keys glob s pattern namespace =
     (case get_keys_body glob s pattern namespace of
        Inl e \<Rightarrow> Inr []
      | Inr keys \<Rightarrow> Inr keys)"

definition memory_namespaces :: "'e cache_service \<Rightarrow> string list" where
  "memory_namespaces s = map before_colon (filter has_colon (map fst (memory_cache s)))"

text \<open>\<^verbatim>\<open>{k.decode().split(':', 1)[0] for k in redis_keys if ':' in k.decode()}\<close>: the
  condition decodes first, so an undecodable key raises there.\<close>

fun redis_namespace_list :: "pybytes list \<Rightarrow> py_exception + string list" where
  "redis_namespace_list [] = Inr []"
| "redis_namespace_list (k # ks) =
     (case decode k of
        Inl e \<Rightarrow> Inl e
      | Inr d \<Rightarrow>
          (case redis_namespace_list ks of
             Inl e \<Rightarrow> Inl e
           | Inr ns \<Rightarrow> Inr (if has_colon d then before_colon d # ns else ns)))"

definition redis_namespaces :: "'e cache_service \<Rightarrow> py_exception + string list" where
  "redis_namespaces s =
     (case redis s of
        None \<Rightarrow> Inr []
      | Some r \<Rightarrow>
          (case keys_reply r ''*'' of
             Inl e \<Rightarrow> Inl e
           | Inr ks \<Rightarrow> redis_namespace_list ks))"

definition file_namespaces :: "'e cache_service \<Rightarrow> py_exception + string list" where
  "file_namespaces s =
     (case listdir (cache_dir s) of
        Inl e \<Rightarrow> Inl e
      | Inr files \<Rightarrow>
          Inr (map before_colon (filter (\<lambda>file. has_colon file \<and> endswith file ''.cache'') files)))"

definition get_namespaces_body :: "'e cache_service \<Rightarrow> py_exception + string list" where
  "get_namespaces_body s =
     (case redis_namespaces s of
        Inl e \<Rightarrow> Inl e
      | Inr ns2 \<Rightarrow>
          (case file_namespaces s of
             Inl e \<Rightarrow> Inl e
           | Inr ns3 \<Rightarrow> Inr (sorted_set (memory_namespaces s @ ns2 @ ns3))))"

definition get_namespaces :: "'e cache_service \<Rightarrow> py_exception + string list" where
  "get_namespaces s =
     (case get_namespaces_body s of
        Inl e \<Rightarrow> Inr []
      | Inr ns \<Rightarrow> Inr ns)"

subsection \<open>Backup names and restore\<close>


definition digit_char :: "nat \<Rightarrow> char" where
  "digit_char n = ''0123456789'' ! n"

fun zero_pad :: "nat \<Rightarrow> nat \<Rightarrow> string" where
  "zero_pad 0 n = []"
| "zero_pad (Suc w) n = zero_pad w (n div 10) @ [digit_char (n mod 10)]"










subsection \<open>The cache entries and the three tiers\<close>

text \<open>
  The methods \<^verbatim>\<open>get\<close> and \<^verbatim>\<open>set\<close> belong to the part of \<^verbatim>\<open>cache_service.py\<close>
  that the source file elides (\<^verbatim>\<open>[... previous code ...]\<close>); only their callers are
  present. The definitions of this subsection follow the specification instead.
\<close>

record 'v cache_entry =
  ent_value :: 'v
  created_at :: nat
  expires_at :: "nat option"

text \<open>The configuration handed to the service at construction: the capacity of the
  memory tier, the default time to live, the file name derived from a canonical key, and
  the size of the file an entry serialises to.\<close>

record 'v cache_config =
  capacity :: nat
  default_ttl :: "nat option"
  file_name :: "string \<Rightarrow> string"
  entry_size :: "'v cache_entry \<Rightarrow> nat"














subsection \<open>The memoization decorator\<close>

text \<open>A decorated function: the module and qualified name identify it, \<^verbatim>\<open>__name__\<close>
  is its short name.\<close>

record operation =
  op_module :: string
  op_qualname :: string
  op_name :: string

text \<open>\<^verbatim>\<open>key = f"{func.__name__}:{str(args)}:{str(kwargs)}"\<close>. Python's \<^verbatim>\<open>str\<close> on the
  tuple of positional arguments and on the dictionary of keyword arguments are
  parameters.\<close>

definition cache_key ::
  "('a \<Rightarrow> string) \<Rightarrow> ('k \<Rightarrow> string) \<Rightarrow> operation \<Rightarrow> 'a \<Rightarrow> 'k \<Rightarrow> string" where
  "cache_key str_args str_kwargs func args kwargs =
     op_name func @ '':'' @ str_args args @ '':'' @ str_kwargs kwargs"

text \<open>\<^verbatim>\<open>str\<close> for arguments that are \<^verbatim>\<open>None\<close>, booleans, integers, and tuples and lists
  of these; keyword names are identifiers, which \<^verbatim>\<open>repr\<close> puts in single quotes.\<close>

datatype pyval = PyNone | PyBool bool | PyInt int | PyTuple "pyval list" | PyList "pyval list"

function show_nat :: "nat \<Rightarrow> string" where
  "show_nat n = (if n < 10 then [digit_char n] else show_nat (n div 10) @ [digit_char (n mod 10)])"
  by pat_completeness auto
termination
  by (relation "measure id") auto

definition show_int :: "int \<Rightarrow> string" where
  "show_int i = (if i < 0 then ''-'' @ show_nat (nat (- i)) else show_nat (nat i))"

fun join_comma :: "string list \<Rightarrow> string" where
  "join_comma [] = []"
| "join_comma [x] = x"
| "join_comma (x # y # zs) = x @ '', '' @ join_comma (y # zs)"

fun py_repr :: "pyval \<Rightarrow> string" where
  "py_repr PyNone = ''None''"
| "py_repr (PyBool b) = (if b then ''True'' else ''False'')"
| "py_repr (PyInt i) = show_int i"
| "py_repr (PyTuple vs) =
     (if length vs = 1 then ''('' @ join_comma (map py_repr vs) @ '',)''
      else ''('' @ join_comma (map py_repr vs) @ '')'')"
| "py_repr (PyList vs) = ''['' @ join_comma (map py_repr vs) @ '']''"

definition str_tuple :: "pyval list \<Rightarrow> string" where
  "str_tuple args = py_repr (PyTuple args)"

definition str_dict :: "(string \<times> pyval) list \<Rightarrow> string" where
  "str_dict kwargs =
     ''{'' @ join_comma (map (\<lambda>(k, v). [CHR 0x27] @ k @ [CHR 0x27] @ '': '' @ py_repr v) kwargs) @ ''}''"


text \<open>The decorator's arguments, the cache key of the call, the clock, and the decorated
  function: \<open>w_func n\<close> is what its execution number \<open>n\<close> returns.\<close>

record 'r wrapped =
  w_config :: "'r option cache_config"
  w_ttl :: "nat option"
  w_namespace :: string
  w_key :: string
  w_now :: nat
  w_func :: "nat \<Rightarrow> 'r option"







subsection \<open>Invariants of the memoized runs\<close>




subsection \<open>Example states\<close>

text \<open>A service with two entries of the namespace \<^verbatim>\<open>ns\<close> in memory, one file in its
  cache directory and no remote tier; and a remote client that holds the same two keys
  and returns an undecodable key for every pattern but \<^verbatim>\<open>ns:*b\<close>.\<close>

definition ex_service :: "unit cache_service" where
  "ex_service =
     \<lparr> stats = \<lparr> hits = 3, misses = 1, memory_hits = 2, file_hits = 1, redis_hits = 0 \<rparr>,
       memory_cache = [(''ns:ab'', ()), (''ns:bz'', ())],
       cache_dir = Some (Directory 4096 [(''x.cache'', RegFile 10 (Pickled []))]),
       dir_writable = True,
       redis = None \<rparr>"

definition ex_redis :: "unit redis_client" where
  "ex_redis = \<lparr> ping_reply = Inr (), dbsize_reply = Inr 2,
                 keys_reply = (\<lambda>p. if p = ''ns:*b'' then Inr [Utf8 ''ns:ab''] else Inr [NotUtf8]),
                 remote_entries = [(''ns:ab'', ()), (''ns:bz'', ())] \<rparr>"









definition ex_analyze :: operation where
  "ex_analyze = \<lparr> op_module = ''services.nlp'', op_qualname = ''analyze'', op_name = ''analyze'' \<rparr>"

text \<open>A configuration, an empty cache with no remote tier, and a decorated call whose
  execution number \<open>n\<close> returns \<open>100 + n\<close>.\<close>

definition ex_config :: "nat option cache_config" where
  "ex_config = \<lparr> capacity = 2, default_ttl = Some 300,
                  file_name = (\<lambda>ck. ck @ ''.cache''), entry_size = (\<lambda>e. 1) \<rparr>"


definition ex_wrapped :: "nat wrapped" where
  "ex_wrapped = \<lparr> w_config = ex_config, w_ttl = Some 60, w_namespace = ''default'',
                   w_key = ''analyze:(7,):{}'', w_now = 1000, w_func = (\<lambda>n. Some (100 + n)) \<rparr>"

section \<open>Properties\<close>

subsection \<open>Statistics\<close>



text \<open>
  C6. \<^verbatim>\<open>get_stats()\<close> is to report the remote entry count as an integer. With a
  reachable remote tier of two entries, awaiting \<^verbatim>\<open>_get_redis_size()\<close> would give 2,
  but the dictionary that \<^verbatim>\<open>get_stats()\<close> returns holds the coroutine object of the
  call that was never awaited.
\<close>

theorem get_stats_redis_size_unawaited:
  "get_redis_size (ex_service\<lparr>redis := Some ex_redis\<rparr>) = 2
   \<and> (\<exists>r. get_stats (\<lambda>s. ()) (ex_service\<lparr>redis := Some ex_redis\<rparr>) = Inr r
          \<and> r_redis_cache_size r = CoroutineObject
          \<and> r_redis_cache_size r \<noteq> IntValue 2)"
  by (simp add: get_stats_def get_redis_size_def ex_service_def ex_redis_def py_truediv_def Let_def)

subsection \<open>Health check\<close>





subsection \<open>Key and namespace listings\<close>

text \<open>
  C8. \<^verbatim>\<open>get_keys(pattern, namespace)\<close> is to return the raw keys that match the pattern
  in any tier. For the pattern \<^verbatim>\<open>*b\<close> in the namespace \<^verbatim>\<open>ns\<close>, with the keys
  \<^verbatim>\<open>ns:ab\<close> and \<^verbatim>\<open>ns:bz\<close> in memory, the memory tier contributes \<^verbatim>\<open>bz\<close> (its key
  starts with \<^verbatim>\<open>ns:b\<close>, the pattern without its star) and not \<^verbatim>\<open>ab\<close>; a remote tier
  holding the same two keys contributes \<^verbatim>\<open>ab\<close>, the one key that matches.
\<close>

theorem get_keys_memory_prefix_match:
  "get_keys (\<lambda>p. []) ex_service ''*b'' (Some ''ns'') = Inr [''bz'']
   \<and> get_keys (\<lambda>p. []) (ex_service\<lparr>redis := Some ex_redis\<rparr>) ''*b'' (Some ''ns'') = Inr [''ab'', ''bz'']"
  by (simp add: get_keys_def get_keys_body_def qualified_pattern_def memory_keys_def
      redis_keys_def redis_raw_key_def raw_key_def has_colon_def after_colon_def startswith_def
      remove_stars_def sorted_set_def ex_service_def ex_redis_def)

lemma map_raise_undecodable:
  "NotUtf8 \<in> set ks \<Longrightarrow> \<exists>e. map_raise redis_raw_key ks = Inl e"
  by (induction ks) (auto simp add: redis_raw_key_def split: sum.splits)

lemma redis_namespace_list_undecodable:
  "NotUtf8 \<in> set ks \<Longrightarrow> \<exists>e. redis_namespace_list ks = Inl e"
  by (induction ks) (auto split: sum.splits)

lemma get_keys_total: "\<exists>ks. get_keys glob s pattern namespace = Inr ks"
  by (simp add: get_keys_def split: sum.splits)

lemma get_namespaces_total: "\<exists>ns. get_namespaces s = Inr ns"
  by (simp add: get_namespaces_def split: sum.splits)

lemma get_keys_sorted_distinct:
  "get_keys glob s pattern namespace = Inr ks \<Longrightarrow> sorted ks \<and> distinct ks"
  by (auto simp add: get_keys_def get_keys_body_def sorted_set_def Let_def split: sum.splits)

lemma get_keys_redis_failure:
  assumes "redis s = Some r" and "keys_reply r (qualified_pattern pattern namespace) = Inl e"
  shows "get_keys glob s pattern namespace = Inr []"
  using assms by (simp add: get_keys_def get_keys_body_def redis_keys_def Let_def)

lemma get_keys_undecodable:
  assumes "redis s = Some r" and "keys_reply r (qualified_pattern pattern namespace) = Inr ks"
    and "NotUtf8 \<in> set ks"
  shows "get_keys glob s pattern namespace = Inr []"
proof -
  from map_raise_undecodable [OF assms(3)] obtain e where "map_raise redis_raw_key ks = Inl e" ..
  with assms(1,2) show ?thesis
    by (simp add: get_keys_def get_keys_body_def redis_keys_def Let_def)
qed

lemma map_raise_file_failure:
  "f \<in> set fs \<Longrightarrow> file_raw_key f = Inl e \<Longrightarrow> \<exists>e'. map_raise file_raw_key fs = Inl e'"
  by (induction fs) (auto split: sum.splits)

lemma get_keys_malformed_file:
  assumes "f \<in> set (glob (qualified_pattern pattern namespace @ ''.cache''))"
    and "file_raw_key f = Inl e"
  shows "get_keys glob s pattern namespace = Inr []"
proof -
  from map_raise_file_failure [OF assms] obtain e' where
    "map_raise file_raw_key (glob (qualified_pattern pattern namespace @ ''.cache'')) = Inl e'" ..
  then show ?thesis
    by (simp add: get_keys_def get_keys_body_def Let_def split: sum.splits)
qed

lemma get_namespaces_redis_failure:
  assumes "redis s = Some r" and "keys_reply r ''*'' = Inl e"
  shows "get_namespaces s = Inr []"
  using assms by (simp add: get_namespaces_def get_namespaces_body_def redis_namespaces_def)

lemma get_namespaces_undecodable:
  assumes "redis s = Some r" and "keys_reply r ''*'' = Inr ks" and "NotUtf8 \<in> set ks"
  shows "get_namespaces s = Inr []"
proof -
  from redis_namespace_list_undecodable [OF assms(3)] obtain e where "redis_namespace_list ks = Inl e" ..
  with assms(1,2) show ?thesis
    by (simp add: get_namespaces_def get_namespaces_body_def redis_namespaces_def)
qed

lemma get_namespaces_listdir_failure:
  assumes "listdir (cache_dir s) = Inl e"
  shows "get_namespaces s = Inr []"
  using assms
  by (simp add: get_namespaces_def get_namespaces_body_def file_namespaces_def split: sum.splits)

text \<open>
  C10. \<^verbatim>\<open>get_keys\<close> and \<^verbatim>\<open>get_namespaces\<close> return a list on every path and never an
  exception (of those derived from \<^verbatim>\<open>Exception\<close>, which the handler catches). Whenever their body raises, the result is the empty list: in particular
  when the remote enumeration fails, when a remote key does not decode, when a file name
  found by \<^verbatim>\<open>glob\<close> cannot be split, and when the cache directory cannot be listed.
\<close>

theorem listings_never_raise:
  "(\<exists>ks. get_keys glob s pattern namespace = Inr ks)
   \<and> (\<exists>ns. get_namespaces s = Inr ns)
   \<and> ((\<exists>e. get_keys_body glob s pattern namespace = Inl e) \<longrightarrow>
        get_keys glob s pattern namespace = Inr [])
   \<and> ((\<exists>e. get_namespaces_body s = Inl e) \<longrightarrow> get_namespaces s = Inr [])
   \<and> ((\<exists>r e. redis s = Some r \<and> keys_reply r (qualified_pattern pattern namespace) = Inl e) \<longrightarrow>
        get_keys glob s pattern namespace = Inr [])
   \<and> ((\<exists>r ks. redis s = Some r \<and> keys_reply r (qualified_pattern pattern namespace) = Inr ks
          \<and> NotUtf8 \<in> set ks) \<longrightarrow>
        get_keys glob s pattern namespace = Inr [])
   \<and> ((\<exists>f e. f \<in> set (glob (qualified_pattern pattern namespace @ ''.cache''))
          \<and> file_raw_key f = Inl e) \<longrightarrow>
        get_keys glob s pattern namespace = Inr [])
   \<and> ((\<exists>r e. redis s = Some r \<and> keys_reply r ''*'' = Inl e) \<longrightarrow> get_namespaces s = Inr [])
   \<and> ((\<exists>r ks. redis s = Some r \<and> keys_reply r ''*'' = Inr ks \<and> NotUtf8 \<in> set ks) \<longrightarrow>
        get_namespaces s = Inr [])
   \<and> ((\<exists>e. listdir (cache_dir s) = Inl e) \<longrightarrow> get_namespaces s = Inr [])"
  using get_keys_total [of glob s pattern namespace] get_namespaces_total [of s]
    get_keys_redis_failure [of s _ pattern namespace _ glob]
    get_keys_undecodable [of s _ pattern namespace _ glob]
    get_keys_malformed_file [of _ glob pattern namespace _ s]
    get_namespaces_redis_failure [of s] get_namespaces_undecodable [of s]
    get_namespaces_listdir_failure [of s]
  by (auto simp add: get_keys_def get_namespaces_def)

theorem listings_never_raise_witness:
  "keys_reply ex_redis ''ns:*'' = Inr [NotUtf8]
   \<and> get_keys (\<lambda>p. []) (ex_service\<lparr>redis := Some ex_redis\<rparr>) ''*'' (Some ''ns'') = Inr []
   \<and> get_namespaces (ex_service\<lparr>redis := Some ex_redis\<rparr>) = Inr []
   \<and> listdir (cache_dir (ex_service\<lparr>cache_dir := None\<rparr>)) = Inl FileNotFoundError
   \<and> get_namespaces (ex_service\<lparr>cache_dir := None\<rparr>) = Inr []"
  using listings_never_raise [of "\<lambda>p. []" "ex_service\<lparr>redis := Some ex_redis\<rparr>" "''*''" "Some ''ns''"]
    listings_never_raise [of "\<lambda>p. []" "ex_service\<lparr>cache_dir := None\<rparr>" "''*''" "Some ''ns''"]
  by (simp add: ex_service_def ex_redis_def qualified_pattern_def)

subsection \<open>The order of backup names\<close>


lemma length_zero_pad [simp]: "length (zero_pad w n) = w"
  by (induction w arbitrary: n) auto



















subsection \<open>Restore\<close>








subsection \<open>The key of a memoized call\<close>





subsection \<open>Set and get\<close>










subsection \<open>Concurrent and sequential memoized calls\<close>

lemma ex_wrapped_key:
  "w_key ex_wrapped = cache_key str_tuple str_dict ex_analyze [PyInt 7] []"
  by (simp add: ex_wrapped_def cache_key_def ex_analyze_def str_tuple_def str_dict_def
      show_int_def digit_char_def)













end
